theory Spec2Isabelle
  imports Complex_Main
begin

section \<open>The dew point fan controller\<close>

text \<open>
  A shallow embedding of the control loop of \<^verbatim>\<open>dew_point_fan.go\<close>: the dew point
  formula, the rounding helper, the body of the sensor loop, the decision block with its
  spike rejection, hysteresis and safety floors, the remote override, the relay output
  and the read-back of the manual switch.

  Numbers. The program computes with \<^verbatim>\<open>float32\<close> and \<^verbatim>\<open>float64\<close>. They are
  embedded as \<^typ>\<open>real\<close>: every finite float is a real number and the comparisons of the
  program are the comparisons of the reals on them; the rounding of each arithmetic
  operation and the values NaN and infinity are not represented. The remote override is a
  Go \<^verbatim>\<open>int\<close> that is only compared with 0 and 1, embedded as \<^typ>\<open>int\<close>.

  Effects. The display, the log and the InfluxDB client only receive values; they are
  left out. The results of the sensor library, the value of the global
  \<^verbatim>\<open>remoteOverride\<close> (written by the HTTP handler) and the level read on GPIO22 are the
  inputs of one pass of the loop; the override has one value during a pass.
\<close>

subsection \<open>Constants\<close>

definition DIFF_MIN :: real where "DIFF_MIN = 3.0"
definition HYSTERESIS :: real where "HYSTERESIS = 1.0"
definition HUM_INSIDE_MIN :: real where "HUM_INSIDE_MIN = 50.0"
definition TEMP_INSIDE_MIN :: real where "TEMP_INSIDE_MIN = 10.0"
definition TEMP_OUTSIDE_MIN :: real where "TEMP_OUTSIDE_MIN = - 10.0"
definition DEF_TEMP :: real where "DEF_TEMP = - 200.0"
definition DEF_HUM :: real where "DEF_HUM = - 1.0"

definition getTempCorrections :: "real list" where
  "getTempCorrections = [- 4.0, 0.0]"

definition getHumCorrections :: "real list" where
  "getHumCorrections = [10.0, - 6.0]"

definition pins :: "nat list" where
  "pins = [24, 23]"

subsection \<open>Rounding and the dew point formula\<close>

text \<open>\<^verbatim>\<open>math.Round\<close>: the nearest integer, halves away from zero.\<close>

definition mathRound :: "real \<Rightarrow> real" where
  "mathRound x = (if x < 0 then - of_int \<lfloor>- x + 1 / 2\<rfloor> else of_int \<lfloor>x + 1 / 2\<rfloor>)"

definition roundFloat32 :: "real \<Rightarrow> nat \<Rightarrow> real" where
  "roundFloat32 val precision =
     (let ratio = 10 ^ precision in mathRound (val * ratio) / ratio)"

text \<open>
  \<^verbatim>\<open>calcDewPoint\<close>: \<^verbatim>\<open>a\<close> and \<^verbatim>\<open>b\<close> are declared without a value (zero in Go) and set
  by \<^verbatim>\<open>if t64 >= 0 {...} else if t64 < 0 {...}\<close>; the last alternative below is the case
  in which neither test holds.
\<close>

definition magnusConstants :: "real \<Rightarrow> real \<times> real" where
  "magnusConstants t64 =
     (if t64 \<ge> 0 then (7.5, 237.3) else if t64 < 0 then (7.6, 240.7) else (0, 0))"

definition calcDewPoint :: "real \<Rightarrow> real \<Rightarrow> real" where
  "calcDewPoint t r =
     (let (a, b) = magnusConstants t;
          sdd = 6.1078 * (10 powr ((a * t) / (b + t)));
          dd = sdd * (r / 100);
          v = log 10 (dd / 6.1078);
          tt = (b * v) / (a - v)
      in tt)"

subsection \<open>State and inputs of the loop\<close>

datatype level = Low | High

text \<open>
  The variables of \<^verbatim>\<open>main\<close> that live across passes of the loop, and \<^verbatim>\<open>readingsGood\<close>,
  which each pass sets anew. \<open>pin25\<close> is the level last written to the relay output.
\<close>

record loopState =
  temperatures :: "real list"
  humidities :: "real list"
  dewpoints :: "real list"
  lastDewpoints :: "real list"
  retried :: "int list"
  readingsGood :: bool
  fanShouldBeOn :: bool
  lastfanShouldBeOn :: bool
  fanStatus :: bool
  lastFanStatus :: bool
  lastRemoteOverride :: int
  venting :: string
  fanIsOn :: string
  isAlive :: bool
  pin25 :: level

text \<open>
  What \<^verbatim>\<open>dht.ReadDHTxxWithRetry\<close> returns: Go returns all four values, also when the
  error is not nil.
\<close>

record dhtResult =
  temperature :: real
  humidity :: real
  retriedCount :: int
  err :: "string option"

record cycleInput =
  sensorRead :: "nat \<Rightarrow> dhtResult"
  remoteOverride :: int
  pin22Read :: bool

definition initState :: loopState where
  "initState =
     \<lparr>temperatures = [DEF_TEMP, DEF_TEMP], humidities = [DEF_HUM, DEF_HUM],
      dewpoints = [0, 0], lastDewpoints = [0, 0], retried = [0, 0],
      readingsGood = True, fanShouldBeOn = False, lastfanShouldBeOn = False,
      fanStatus = False, lastFanStatus = False, lastRemoteOverride = 0,
      venting = ''---'', fanIsOn = ''---'', isAlive = False, pin25 = High\<rparr>"

text \<open>All five slices have the length of \<^verbatim>\<open>pins\<close>, so no index of the loop is out of range.\<close>

definition slicesOk :: "loopState \<Rightarrow> bool" where
  "slicesOk st =
     (length (temperatures st) = length pins \<and> length (humidities st) = length pins \<and>
      length (dewpoints st) = length pins \<and> length (lastDewpoints st) = length pins \<and>
      length (retried st) = length pins)"

subsection \<open>The sensor loop\<close>

text \<open>The tests under which the loop calls \<^verbatim>\<open>calcDewPoint\<close> for sensor \<open>i\<close>.\<close>

definition hasValues :: "loopState \<Rightarrow> nat \<Rightarrow> bool" where
  "hasValues st i = (temperatures st ! i > DEF_TEMP \<and> humidities st ! i > DEF_HUM)"

definition outOfRange :: "loopState \<Rightarrow> nat \<Rightarrow> bool" where
  "outOfRange st i = (temperatures st ! i < - 20 \<or> temperatures st ! i > 40)"

definition storeRead :: "nat \<Rightarrow> dhtResult \<Rightarrow> loopState \<Rightarrow> loopState" where
  "storeRead i rd st =
     st\<lparr>temperatures := (temperatures st)[i := temperature rd],
        humidities := (humidities st)[i := humidity rd],
        retried := (retried st)[i := retriedCount rd]\<rparr>"

definition correct :: "nat \<Rightarrow> loopState \<Rightarrow> loopState" where
  "correct i st =
     (let st1 = st\<lparr>temperatures :=
            (temperatures st)[i := roundFloat32 (temperatures st ! i + getTempCorrections ! i) 1]\<rparr>
      in st1\<lparr>humidities :=
            (humidities st1)[i := roundFloat32 (humidities st1 ! i + getHumCorrections ! i) 1]\<rparr>)"

text \<open>The first half of the loop body: the read, then either the error branch or the correction.\<close>

definition measured :: "nat \<Rightarrow> dhtResult \<Rightarrow> loopState \<Rightarrow> loopState" where
  "measured i rd st =
     (let st1 = storeRead i rd st
      in if err rd \<noteq> None then st1\<lparr>readingsGood := False\<rparr> else correct i st1)"

definition sensorStep :: "nat \<Rightarrow> dhtResult \<Rightarrow> loopState \<Rightarrow> loopState" where
  "sensorStep i rd st =
     (let st2 = measured i rd st
      in if hasValues st2 i then
           (if outOfRange st2 i then st2\<lparr>readingsGood := False\<rparr>
            else st2\<lparr>dewpoints :=
                      (dewpoints st2)[i := roundFloat32
                         (calcDewPoint (temperatures st2 ! i) (humidities st2 ! i)) 1]\<rparr>)
         else st2)"

text \<open>
  The arguments with which iteration \<open>i\<close> calls \<^verbatim>\<open>calcDewPoint\<close>, when it does: the
  same tests as in \<open>sensorStep\<close>.
\<close>

definition dewPointArgs :: "nat \<Rightarrow> dhtResult \<Rightarrow> loopState \<Rightarrow> (real \<times> real) option" where
  "dewPointArgs i rd st =
     (let st2 = measured i rd st
      in if hasValues st2 i \<and> \<not> outOfRange st2 i
         then Some (temperatures st2 ! i, humidities st2 ! i) else None)"

definition sensorLoop :: "(nat \<Rightarrow> dhtResult) \<Rightarrow> loopState \<Rightarrow> loopState" where
  "sensorLoop rd st = foldl (\<lambda>s i. sensorStep i (rd i) s) st [0..<length pins]"

subsection \<open>The decision block\<close>

definition spike :: "loopState \<Rightarrow> bool" where
  "spike st =
     (\<bar>dewpoints st ! 0 - lastDewpoints st ! 0\<bar> > 1 \<or>
      \<bar>dewpoints st ! 1 - lastDewpoints st ! 1\<bar> > 1)"

definition deltaTP :: "loopState \<Rightarrow> real" where
  "deltaTP st = dewpoints st ! 0 - dewpoints st ! 1"

definition hysteresis :: "real \<Rightarrow> bool \<Rightarrow> bool" where
  "hysteresis delta fan =
     (let fan1 = (if delta > DIFF_MIN + HYSTERESIS then True else fan);
          fan2 = (if delta < DIFF_MIN then False else fan1)
      in fan2)"

definition safetyFloors :: "loopState \<Rightarrow> bool \<Rightarrow> bool" where
  "safetyFloors st fan =
     (let fan1 = (if temperatures st ! 0 < TEMP_INSIDE_MIN then False else fan);
          fan2 = (if temperatures st ! 1 < TEMP_OUTSIDE_MIN then False else fan1);
          fan3 = (if humidities st ! 0 < HUM_INSIDE_MIN then False else fan2)
      in fan3)"

definition decide :: "loopState \<Rightarrow> loopState" where
  "decide st =
     (let fan = safetyFloors st (hysteresis (deltaTP st) (fanShouldBeOn st))
      in st\<lparr>fanShouldBeOn := fan, venting := (if fan then ''on'' else ''off'')\<rparr>)"

definition storeLast :: "loopState \<Rightarrow> loopState" where
  "storeLast st =
     st\<lparr>lastDewpoints := (lastDewpoints st)[0 := dewpoints st ! 0, 1 := dewpoints st ! 1]\<rparr>"

definition decisionStage :: "loopState \<Rightarrow> loopState" where
  "decisionStage st =
     (if readingsGood st then storeLast (if spike st then st else decide st) else st)"

subsection \<open>Override, relay output and manual switch\<close>

definition overrideStage :: "int \<Rightarrow> loopState \<Rightarrow> loopState" where
  "overrideStage ro st =
     (if ro > 0 then
        (if ro = 1 then st\<lparr>fanShouldBeOn := True\<rparr> else st\<lparr>fanShouldBeOn := False\<rparr>)
      else st)"

text \<open>The relay is active low.\<close>

definition actuator :: "loopState \<Rightarrow> loopState" where
  "actuator st = st\<lparr>pin25 := (if fanShouldBeOn st then Low else High)\<rparr>"

definition manualSwitch :: "bool \<Rightarrow> loopState \<Rightarrow> loopState" where
  "manualSwitch p22 st =
     (let st1 = st\<lparr>isAlive := \<not> isAlive st\<rparr>
      in if p22 then st1\<lparr>fanIsOn := ''OFF'', fanStatus := False\<rparr>
         else st1\<lparr>fanIsOn := ''ON '', fanStatus := True\<rparr>)"

definition remember :: "int \<Rightarrow> loopState \<Rightarrow> loopState" where
  "remember ro st =
     st\<lparr>lastfanShouldBeOn := fanShouldBeOn st, lastFanStatus := fanStatus st,
        lastRemoteOverride := ro\<rparr>"

text \<open>The state before the decision block of a pass: \<^verbatim>\<open>readingsGood\<close> reset, sensors read.\<close>

definition afterSensors :: "cycleInput \<Rightarrow> loopState \<Rightarrow> loopState" where
  "afterSensors inp st = sensorLoop (sensorRead inp) (st\<lparr>readingsGood := True\<rparr>)"

definition cycle :: "cycleInput \<Rightarrow> loopState \<Rightarrow> loopState" where
  "cycle inp st =
     remember (remoteOverride inp)
       (manualSwitch (pin22Read inp)
          (actuator (overrideStage (remoteOverride inp) (decisionStage (afterSensors inp st)))))"

text \<open>The loop never ends; \<open>run\<close> is its state after the passes whose inputs are listed.\<close>

fun run :: "cycleInput list \<Rightarrow> loopState \<Rightarrow> loopState" where
  "run [] st = st"
| "run (inp # inps) st = run inps (cycle inp st)"

text \<open>
  The handler of \<^verbatim>\<open>/override\<close>: \<open>remote\<close> is the structure the JSON decoder has filled;
  the handler stores its field whether or not decoding reported an error.
\<close>

record remoteControl =
  Override :: int

definition overrideHandler :: "string \<Rightarrow> remoteControl \<Rightarrow> int \<Rightarrow> int" where
  "overrideHandler method remote ro = (if method = ''POST'' then Override remote else ro)"

subsection \<open>The formula in the words of the specification\<close>


subsection \<open>Example inputs and states\<close>

definition okRead :: "real \<Rightarrow> real \<Rightarrow> dhtResult" where
  "okRead t h = \<lparr>temperature = t, humidity = h, retriedCount = 0, err = None\<rparr>"

definition failedRead :: dhtResult where
  "failedRead =
     \<lparr>temperature = - 1, humidity = - 1, retriedCount = 15, err = Some ''read failed''\<rparr>"

definition inputOf :: "dhtResult \<Rightarrow> dhtResult \<Rightarrow> int \<Rightarrow> bool \<Rightarrow> cycleInput" where
  "inputOf inside outside ro p22 =
     \<lparr>sensorRead = (\<lambda>i. if i = 0 then inside else outside),
      remoteOverride = ro, pin22Read = p22\<rparr>"

text \<open>
  Raw readings of 21.0 C, 50 % inside and 13.0 C, 66 % outside: corrected to 17.0 C, 60 %
  and 13.0 C, 60 %, dew points 9.2 and 5.4, a difference of 3.8, inside the band. With
  12.0 C outside the dew point there is 4.5 (difference 4.7), with 13.9 C it is 6.3
  (difference 2.9).
\<close>

definition band :: "int \<Rightarrow> cycleInput" where
  "band ro = inputOf (okRead 21.0 50.0) (okRead 13.0 66.0) ro True"

definition wide :: "int \<Rightarrow> cycleInput" where
  "wide ro = inputOf (okRead 21.0 50.0) (okRead 12.0 66.0) ro True"

definition narrow :: "int \<Rightarrow> cycleInput" where
  "narrow ro = inputOf (okRead 21.0 50.0) (okRead 13.9 66.0) ro True"

text \<open>Dry air outside: a raw reading of 6 %, which the correction turns into 0 %.\<close>

definition dry :: cycleInput where
  "dry = inputOf (okRead 21.0 50.0) (okRead 13.0 6.0) 0 True"

definition insideFails :: "int \<Rightarrow> cycleInput" where
  "insideFails ro = inputOf failedRead (okRead 13.0 66.0) ro True"

text \<open>
  A state on which the decision block can be run directly: good readings, the given dew
  points, the same values stored as last dew points, and temperatures and humidities for
  which no safety floor holds.
\<close>

definition exampleState :: "real \<Rightarrow> real \<Rightarrow> bool \<Rightarrow> loopState" where
  "exampleState dIn dOut fan =
     initState\<lparr>temperatures := [22.0, 5.0], humidities := [55.0, 80.0],
               dewpoints := [dIn, dOut], lastDewpoints := [dIn, dOut],
               fanShouldBeOn := fan\<rparr>"

section \<open>Basic facts\<close>

lemmas thresholds =
  DIFF_MIN_def HYSTERESIS_def HUM_INSIDE_MIN_def TEMP_INSIDE_MIN_def TEMP_OUTSIDE_MIN_def
  DEF_TEMP_def DEF_HUM_def

lemma sensorLoop_steps:
  "sensorLoop rd st = sensorStep 1 (rd 1) (sensorStep 0 (rd 0) st)"
  by (simp add: sensorLoop_def pins_def upt_rec_numeral)

subsection \<open>Who writes \<open>fanShouldBeOn\<close>\<close>

lemma fan_measured [simp]: "fanShouldBeOn (measured i rd st) = fanShouldBeOn st"
  by (simp add: measured_def storeRead_def correct_def Let_def)

lemma fan_sensorStep [simp]: "fanShouldBeOn (sensorStep i rd st) = fanShouldBeOn st"
  by (simp add: sensorStep_def Let_def)

lemma fan_sensorLoop [simp]: "fanShouldBeOn (sensorLoop rd st) = fanShouldBeOn st"
  by (simp add: sensorLoop_steps)

lemma fan_afterSensors [simp]: "fanShouldBeOn (afterSensors inp st) = fanShouldBeOn st"
  by (simp add: afterSensors_def)

lemma fan_storeLast [simp]: "fanShouldBeOn (storeLast st) = fanShouldBeOn st"
  by (simp add: storeLast_def)

lemma fan_decisionStage:
  "fanShouldBeOn (decisionStage st) =
     (if readingsGood st \<and> \<not> spike st
      then safetyFloors st (hysteresis (deltaTP st) (fanShouldBeOn st))
      else fanShouldBeOn st)"
  by (simp add: decisionStage_def decide_def Let_def)

lemma fan_overrideStage:
  "fanShouldBeOn (overrideStage ro st) = (if ro > 0 then ro = 1 else fanShouldBeOn st)"
  by (simp add: overrideStage_def)

lemma fan_cycle:
  "fanShouldBeOn (cycle inp st) =
     (if remoteOverride inp > 0 then remoteOverride inp = 1
      else fanShouldBeOn (decisionStage (afterSensors inp st)))"
  by (simp add: cycle_def remember_def manualSwitch_def actuator_def Let_def fan_overrideStage)

lemma pin25_cycle:
  "pin25 (cycle inp st) = (if fanShouldBeOn (cycle inp st) then Low else High)"
  by (simp add: cycle_def remember_def manualSwitch_def actuator_def Let_def)

subsection \<open>The slices keep their length\<close>

lemma slicesOk_initState: "slicesOk initState"
  by (simp add: slicesOk_def initState_def pins_def)

lemma slicesOk_measured [simp]: "slicesOk (measured i rd st) = slicesOk st"
  by (simp add: measured_def storeRead_def correct_def slicesOk_def Let_def)

lemma slicesOk_sensorStep [simp]: "slicesOk (sensorStep i rd st) = slicesOk st"
proof -
  have "slicesOk (sensorStep i rd st) = slicesOk (measured i rd st)"
    by (simp add: sensorStep_def Let_def slicesOk_def)
  then show ?thesis by simp
qed

lemma slicesOk_afterSensors [simp]: "slicesOk (afterSensors inp st) = slicesOk st"
proof -
  have "slicesOk (st\<lparr>readingsGood := True\<rparr>) = slicesOk st"
    by (simp add: slicesOk_def)
  then show ?thesis by (simp add: afterSensors_def sensorLoop_steps)
qed

lemma slicesOk_decisionStage [simp]: "slicesOk (decisionStage st) = slicesOk st"
  by (simp add: decisionStage_def storeLast_def decide_def slicesOk_def Let_def)

lemma slicesOk_cycle [simp]: "slicesOk (cycle inp st) = slicesOk st"
proof -
  have "slicesOk (cycle inp st) = slicesOk (decisionStage (afterSensors inp st))"
    by (simp add: cycle_def remember_def manualSwitch_def actuator_def overrideStage_def
        Let_def slicesOk_def)
  then show ?thesis by simp
qed

lemma slicesOk_run: "slicesOk (run inps st) = slicesOk st"
  by (induction inps arbitrary: st) simp_all

subsection \<open>Logarithms and dew points of the examples\<close>

lemma log10_lower:
  assumes "0 < x" and "0 < q" and "1 < x ^ q * 10 ^ p"
  shows "- real p / real q < log 10 x"
proof -
  have "0 < log 10 (x ^ q * 10 ^ p)"
    using assms by simp
  also have "log 10 (x ^ q * 10 ^ p) = real q * log 10 x + real p"
    using assms by (simp add: log_mult log_nat_power)
  finally have "- real p < real q * log 10 x" by simp
  then show ?thesis using assms(2) by (simp add: field_simps)
qed

lemma log10_upper:
  assumes "0 < x" and "0 < q" and "x ^ q * 10 ^ p < 1"
  shows "log 10 x < - real p / real q"
proof -
  have pos: "0 < x ^ q * 10 ^ p" using assms by simp
  have "log 10 (x ^ q * 10 ^ p) < 0"
    using assms pos by simp
  also have "log 10 (x ^ q * 10 ^ p) = real q * log 10 x + real p"
    using assms by (simp add: log_mult log_nat_power)
  finally have "real q * log 10 x < - real p" by simp
  then show ?thesis using assms(2) by (simp add: field_simps)
qed

lemma log10_60_lower: "- 2 / 9 < log 10 (60 / 100 :: real)"
  using log10_lower [of "60 / 100" 9 2] by (simp add: power_divide)

lemma log10_60_upper: "log 10 (60 / 100 :: real) < - 23 / 104"
  using log10_upper [of "60 / 100" 104 23] by (simp add: power_divide)

lemma calcDewPoint_above_zero:
  assumes "0 \<le> t" and "0 < r"
  shows "calcDewPoint t r =
           237.3 * (7.5 * t / (237.3 + t) + log 10 (r / 100))
             / (7.5 - (7.5 * t / (237.3 + t) + log 10 (r / 100)))"
proof -
  have "6.1078 * 10 powr (7.5 * t / (237.3 + t)) * (r / 100) / 6.1078
          = 10 powr (7.5 * t / (237.3 + t)) * (r / 100)"
    by simp
  then have "log 10 (6.1078 * 10 powr (7.5 * t / (237.3 + t)) * (r / 100) / 6.1078)
          = log 10 (10 powr (7.5 * t / (237.3 + t)) * (r / 100))"
    by (rule arg_cong)
  also have "\<dots> = log 10 (10 powr (7.5 * t / (237.3 + t))) + log 10 (r / 100)"
    by (subst log_mult) (use assms(2) in simp_all)
  also have "\<dots> = 7.5 * t / (237.3 + t) + log 10 (r / 100)"
    by (simp only: log_powr_cancel)
  finally have "log 10 (6.1078 * 10 powr (7.5 * t / (237.3 + t)) * (r / 100) / 6.1078)
     = 7.5 * t / (237.3 + t) + log 10 (r / 100)" .
  then show ?thesis
    using assms(1) by (simp add: calcDewPoint_def magnusConstants_def Let_def)
qed

lemma roundFloat32_one_decimal:
  assumes "0 \<le> x" and "of_int k - 1 / 2 \<le> x * 10" and "x * 10 < of_int k + 1 / 2"
  shows "roundFloat32 x 1 = of_int k / 10"
proof -
  have "\<lfloor>x * 10 + 1 / 2\<rfloor> = k"
    using assms by (intro floor_unique) simp_all
  then show ?thesis
    using assms(1) by (simp add: roundFloat32_def mathRound_def)
qed

lemma floor_plus_half: "\<lfloor>real_of_int n + 1 / 2\<rfloor> = n"
  by (intro floor_unique) simp_all

lemma roundFloat32_of_int: "roundFloat32 (of_int n) 1 = of_int n"
proof -
  have "\<lfloor>real_of_int n * 10 + 1 / 2\<rfloor> = n * 10"
    using floor_plus_half [of "n * 10"] by simp
  moreover have "\<lfloor>- (real_of_int n * 10) + 1 / 2\<rfloor> = - (n * 10)"
    using floor_plus_half [of "- (n * 10)"] by simp
  ultimately show ?thesis
    by (simp add: roundFloat32_def mathRound_def)
qed

lemma roundFloat32_numeral: "roundFloat32 (numeral w) 1 = numeral w"
  using roundFloat32_of_int [of "numeral w"] by simp

lemma roundFloat32_zero: "roundFloat32 0 1 = 0"
  using roundFloat32_of_int [of 0] by simp

lemma roundFloat32_13_9: "roundFloat32 (139 / 10) 1 = 139 / 10"
  using roundFloat32_one_decimal [of "139 / 10" 139] by simp

text \<open>
  The dew point at 60 % and a temperature \<open>t\<close> from 0 to 40 C, rounded: it is \<open>k / 10\<close>
  when the two bounds of the logarithm put the formula between \<open>k / 10 - 0.05\<close> and
  \<open>k / 10 + 0.05\<close>.
\<close>

lemma dew_point_at_60:
  fixes t :: real and k :: int
  defines "c \<equiv> 7.5 * t / (237.3 + t)"
  assumes t: "0 \<le> t" "t \<le> 40" and k: "0 < k"
    and lo: "(of_int k / 10 - 1 / 20) * (7.5 - (c - 2 / 9)) \<le> 237.3 * (c - 2 / 9)"
    and hi: "237.3 * (c - 23 / 104) \<le> (of_int k / 10 + 1 / 20) * (7.5 - (c - 23 / 104))"
  shows "roundFloat32 (calcDewPoint t 60) 1 = of_int k / 10"
proof -
  define L :: real where "L = log 10 (60 / 100)"
  define v where "v = c + L"
  have l: "- 2 / 9 < L" and u: "L < - 23 / 104"
    using log10_60_lower log10_60_upper by (simp_all add: L_def)
  have eq: "calcDewPoint t 60 = 237.3 * v / (7.5 - v)"
    using t by (simp add: calcDewPoint_above_zero L_def v_def c_def)
  have c: "0 \<le> c" "c < 7.5"
    using t by (simp_all add: c_def field_simps)
  have d: "0 < 7.5 - v" using u c by (simp add: v_def)
  have klo: "0 < (of_int k :: real) / 10 - 1 / 20"
  proof -
    have "1 \<le> (of_int k :: real)" using k by linarith
    then show ?thesis by simp
  qed
  have "(of_int k / 10 - 1 / 20) * (7.5 - v) \<le> (of_int k / 10 - 1 / 20) * (7.5 - (c - 2 / 9))"
    using klo l by (intro mult_left_mono) (simp_all add: v_def)
  also note lo
  also have "237.3 * (c - 2 / 9) \<le> 237.3 * v"
    using l by (simp add: v_def)
  finally have "(of_int k / 10 - 1 / 20) * (7.5 - v) \<le> 237.3 * v" .
  then have lower: "of_int k / 10 - 1 / 20 \<le> calcDewPoint t 60"
    unfolding eq using d by (simp only: pos_le_divide_eq)
  have "237.3 * v < 237.3 * (c - 23 / 104)"
    using u by (simp add: v_def)
  also note hi
  also have "(of_int k / 10 + 1 / 20) * (7.5 - (c - 23 / 104)) \<le> (of_int k / 10 + 1 / 20) * (7.5 - v)"
    using klo u by (intro mult_left_mono) (simp_all add: v_def)
  finally have "237.3 * v < (of_int k / 10 + 1 / 20) * (7.5 - v)" .
  then have upper: "calcDewPoint t 60 < of_int k / 10 + 1 / 20"
    unfolding eq using d by (simp only: pos_divide_less_eq)
  have "0 \<le> calcDewPoint t 60" using lower klo by linarith
  then show ?thesis
    using lower upper by (intro roundFloat32_one_decimal) simp_all
qed

lemma dew_point_17_60: "roundFloat32 (calcDewPoint 17 60) 1 = 9.2"
  using dew_point_at_60 [of 17 92] by simp

lemma dew_point_13_60: "roundFloat32 (calcDewPoint 13 60) 1 = 5.4"
  using dew_point_at_60 [of 13 54] by simp

lemma dew_point_12_60: "roundFloat32 (calcDewPoint 12 60) 1 = 4.5"
  using dew_point_at_60 [of 12 45] by simp

lemma dew_point_13_9_60: "roundFloat32 (calcDewPoint (139 / 10) 60) 1 = 6.3"
  using dew_point_at_60 [of "139 / 10" 63] by simp

text \<open>The simplifier writes the precision \<open>1\<close> as \<open>Suc 0\<close>; the same facts in that form.\<close>

lemmas rounded =
  roundFloat32_numeral roundFloat32_zero roundFloat32_13_9
  dew_point_17_60 dew_point_13_60 dew_point_12_60 dew_point_13_9_60
  roundFloat32_numeral [unfolded One_nat_def] roundFloat32_zero [unfolded One_nat_def]
  roundFloat32_13_9 [unfolded One_nat_def]
  dew_point_17_60 [unfolded One_nat_def] dew_point_13_60 [unfolded One_nat_def]
  dew_point_12_60 [unfolded One_nat_def] dew_point_13_9_60 [unfolded One_nat_def]

subsection \<open>The sensor loop on the example readings\<close>

lemma two_elements:
  assumes "length xs = 2"
  obtains a b where "xs = [a, b]"
  using assms by (cases xs; cases "tl xs") auto

lemma afterSensors_ok:
  fixes tIn hIn tOut hOut :: real
  defines "tI \<equiv> roundFloat32 (tIn + getTempCorrections ! 0) 1"
    and "hI \<equiv> roundFloat32 (hIn + getHumCorrections ! 0) 1"
    and "tO \<equiv> roundFloat32 (tOut + getTempCorrections ! 1) 1"
    and "hO \<equiv> roundFloat32 (hOut + getHumCorrections ! 1) 1"
  assumes "slicesOk st"
    and "- 20 \<le> tI" "tI \<le> 40" "- 1 < hI" "- 20 \<le> tO" "tO \<le> 40" "- 1 < hO"
  shows "afterSensors (inputOf (okRead tIn hIn) (okRead tOut hOut) ro p22) st =
           st\<lparr>temperatures := [tI, tO], humidities := [hI, hO],
              dewpoints := [roundFloat32 (calcDewPoint tI hI) 1,
                            roundFloat32 (calcDewPoint tO hO) 1],
              retried := [0, 0], readingsGood := True\<rparr>"
proof -
  obtain t0 t1 where ts: "temperatures st = [t0, t1]"
    using assms(5) two_elements [of "temperatures st"] by (auto simp: slicesOk_def pins_def)
  obtain h0 h1 where hs: "humidities st = [h0, h1]"
    using assms(5) two_elements [of "humidities st"] by (auto simp: slicesOk_def pins_def)
  obtain d0 d1 where ds: "dewpoints st = [d0, d1]"
    using assms(5) two_elements [of "dewpoints st"] by (auto simp: slicesOk_def pins_def)
  obtain r0 r1 where rs: "retried st = [r0, r1]"
    using assms(5) two_elements [of "retried st"] by (auto simp: slicesOk_def pins_def)
  have s0: "sensorStep 0 (okRead tIn hIn) (st\<lparr>readingsGood := True\<rparr>) =
              st\<lparr>temperatures := [tI, t1], humidities := [hI, h1],
                 dewpoints := [roundFloat32 (calcDewPoint tI hI) 1, d1],
                 retried := [0, r1], readingsGood := True\<rparr>"
    using assms(6-8)
    by (simp add: sensorStep_def measured_def storeRead_def correct_def hasValues_def
        outOfRange_def okRead_def Let_def ts hs ds rs thresholds tI_def hI_def)
  have s1: "sensorStep 1 (okRead tOut hOut)
              (st\<lparr>temperatures := [tI, t1], humidities := [hI, h1],
                 dewpoints := [roundFloat32 (calcDewPoint tI hI) 1, d1],
                 retried := [0, r1], readingsGood := True\<rparr>) =
              st\<lparr>temperatures := [tI, tO], humidities := [hI, hO],
                 dewpoints := [roundFloat32 (calcDewPoint tI hI) 1,
                               roundFloat32 (calcDewPoint tO hO) 1],
                 retried := [0, 0], readingsGood := True\<rparr>"
    using assms(9-11)
    by (simp add: sensorStep_def measured_def storeRead_def correct_def hasValues_def
        outOfRange_def okRead_def Let_def thresholds tO_def hO_def)
  have "afterSensors (inputOf (okRead tIn hIn) (okRead tOut hOut) ro p22) st =
          sensorStep 1 (okRead tOut hOut)
            (sensorStep 0 (okRead tIn hIn) (st\<lparr>readingsGood := True\<rparr>))"
    by (simp add: afterSensors_def sensorLoop_steps inputOf_def)
  then show ?thesis
    by (simp only: s0 s1)
qed

lemma afterSensors_band:
  assumes "slicesOk st"
  shows "afterSensors (band ro) st =
           st\<lparr>temperatures := [17, 13], humidities := [60, 60], dewpoints := [9.2, 5.4],
              retried := [0, 0], readingsGood := True\<rparr>"
  using assms
  by (simp add: band_def afterSensors_ok getTempCorrections_def getHumCorrections_def rounded)

lemma afterSensors_wide:
  assumes "slicesOk st"
  shows "afterSensors (wide ro) st =
           st\<lparr>temperatures := [17, 12], humidities := [60, 60], dewpoints := [9.2, 4.5],
              retried := [0, 0], readingsGood := True\<rparr>"
  using assms
  by (simp add: wide_def afterSensors_ok getTempCorrections_def getHumCorrections_def rounded)


lemma afterSensors_narrow:
  assumes "slicesOk st"
  shows "afterSensors (narrow ro) st =
           st\<lparr>temperatures := [17, 13.9], humidities := [60, 60], dewpoints := [9.2, 6.3],
              retried := [0, 0], readingsGood := True\<rparr>"
  using assms
  by (simp add: narrow_def afterSensors_ok getTempCorrections_def getHumCorrections_def rounded)

lemma afterSensors_insideFails:
  assumes "slicesOk st"
  shows "afterSensors (insideFails ro) st =
           st\<lparr>temperatures := [- 1, 13], humidities := [- 1, 60],
              dewpoints := [dewpoints st ! 0, 5.4], retried := [15, 0],
              readingsGood := False\<rparr>"
proof -
  obtain t0 t1 where ts: "temperatures st = [t0, t1]"
    using assms two_elements [of "temperatures st"] by (auto simp: slicesOk_def pins_def)
  obtain h0 h1 where hs: "humidities st = [h0, h1]"
    using assms two_elements [of "humidities st"] by (auto simp: slicesOk_def pins_def)
  obtain d0 d1 where ds: "dewpoints st = [d0, d1]"
    using assms two_elements [of "dewpoints st"] by (auto simp: slicesOk_def pins_def)
  obtain r0 r1 where rs: "retried st = [r0, r1]"
    using assms two_elements [of "retried st"] by (auto simp: slicesOk_def pins_def)
  have s0: "sensorStep 0 failedRead (st\<lparr>readingsGood := True\<rparr>) =
              st\<lparr>temperatures := [- 1, t1], humidities := [- 1, h1],
                 retried := [15, r1], readingsGood := False\<rparr>"
    by (simp add: sensorStep_def measured_def storeRead_def hasValues_def failedRead_def
        Let_def ts hs rs thresholds)
  have s1: "sensorStep 1 (okRead 13 66)
              (st\<lparr>temperatures := [- 1, t1], humidities := [- 1, h1],
                 retried := [15, r1], readingsGood := False\<rparr>) =
              st\<lparr>temperatures := [- 1, 13], humidities := [- 1, 60],
                 dewpoints := [d0, 5.4], retried := [15, 0], readingsGood := False\<rparr>"
    by (simp add: sensorStep_def measured_def storeRead_def correct_def hasValues_def
        outOfRange_def okRead_def Let_def thresholds ds getTempCorrections_def
        getHumCorrections_def rounded)
  have "afterSensors (insideFails ro) st =
          sensorStep 1 (okRead 13 66) (sensorStep 0 failedRead (st\<lparr>readingsGood := True\<rparr>))"
    by (simp add: afterSensors_def sensorLoop_steps insideFails_def inputOf_def)
  moreover have "dewpoints st ! 0 = d0"
    by (simp add: ds)
  ultimately show ?thesis
    by (simp only: s0 s1)
qed

subsection \<open>What a pass leaves in the slices\<close>

lemma lastDewpoints_cycle:
  "lastDewpoints (cycle inp st) = lastDewpoints (decisionStage (afterSensors inp st))"
  by (simp add: cycle_def remember_def manualSwitch_def actuator_def overrideStage_def Let_def)

lemma dewpoints_cycle:
  "dewpoints (cycle inp st) = dewpoints (afterSensors inp st)"
  by (simp add: cycle_def remember_def manualSwitch_def actuator_def overrideStage_def Let_def
      decisionStage_def storeLast_def decide_def)

lemma temperatures_cycle:
  "temperatures (cycle inp st) = temperatures (afterSensors inp st)"
  by (simp add: cycle_def remember_def manualSwitch_def actuator_def overrideStage_def Let_def
      decisionStage_def storeLast_def decide_def)

lemma humidities_cycle:
  "humidities (cycle inp st) = humidities (afterSensors inp st)"
  by (simp add: cycle_def remember_def manualSwitch_def actuator_def overrideStage_def Let_def
      decisionStage_def storeLast_def decide_def)

lemma lastDewpoints_measured [simp]: "lastDewpoints (measured i rd st) = lastDewpoints st"
  by (simp add: measured_def storeRead_def correct_def Let_def)

lemma lastDewpoints_sensorStep [simp]: "lastDewpoints (sensorStep i rd st) = lastDewpoints st"
  by (simp add: sensorStep_def Let_def)

lemma lastDewpoints_afterSensors [simp]:
  "lastDewpoints (afterSensors inp st) = lastDewpoints st"
  by (simp add: afterSensors_def sensorLoop_steps)

lemma lastDewpoints_two:
  assumes "slicesOk st"
  obtains l0 l1 where "lastDewpoints st = [l0, l1]"
  using assms two_elements [of "lastDewpoints st"] by (auto simp: slicesOk_def pins_def)

lemma dewpoints_two:
  assumes "slicesOk st"
  obtains d0 d1 where "dewpoints st = [d0, d1]"
  using assms two_elements [of "dewpoints st"] by (auto simp: slicesOk_def pins_def)

lemma lastDewpoints_decisionStage:
  assumes "slicesOk st"
  shows "lastDewpoints (decisionStage st) =
           (if readingsGood st then dewpoints st else lastDewpoints st)"
proof -
  obtain l0 l1 where ls: "lastDewpoints st = [l0, l1]"
    using assms by (rule lastDewpoints_two)
  obtain d0 d1 where ds: "dewpoints st = [d0, d1]"
    using assms by (rule dewpoints_two)
  show ?thesis
    by (simp add: decisionStage_def storeLast_def decide_def Let_def ls ds)
qed

subsection \<open>Passes on the example readings\<close>

lemma remoteOverride_examples [simp]:
  "remoteOverride (band ro) = ro" "remoteOverride (wide ro) = ro"
  "remoteOverride (narrow ro) = ro" "remoteOverride (insideFails ro) = ro"
  by (simp_all add: band_def wide_def narrow_def insideFails_def inputOf_def)

lemma lastDewpoints_pass:
  assumes "slicesOk st"
  shows "lastDewpoints (cycle inp st) =
           (if readingsGood (afterSensors inp st) then dewpoints (afterSensors inp st)
            else lastDewpoints st)"
proof -
  have "slicesOk (afterSensors inp st)"
    using assms by simp
  then have "lastDewpoints (decisionStage (afterSensors inp st)) =
      (if readingsGood (afterSensors inp st) then dewpoints (afterSensors inp st)
       else lastDewpoints (afterSensors inp st))"
    by (rule lastDewpoints_decisionStage)
  then show ?thesis
    by (simp add: lastDewpoints_cycle)
qed

lemma band_pass:
  assumes "slicesOk st"
  shows "fanShouldBeOn (cycle (band ro) st) = (if ro > 0 then ro = 1 else fanShouldBeOn st)"
    and "lastDewpoints (cycle (band ro) st) = [9.2, 5.4]"
    and "temperatures (cycle (band ro) st) = [17, 13]"
    and "humidities (cycle (band ro) st) = [60, 60]"
proof -
  note s = afterSensors_band [OF assms, of ro]
  show "fanShouldBeOn (cycle (band ro) st) = (if ro > 0 then ro = 1 else fanShouldBeOn st)"
    by (simp add: fan_cycle fan_decisionStage s deltaTP_def hysteresis_def safetyFloors_def
        thresholds)
  show "lastDewpoints (cycle (band ro) st) = [9.2, 5.4]"
    by (simp add: lastDewpoints_pass [OF assms] s)
  show "temperatures (cycle (band ro) st) = [17, 13]"
    by (simp add: temperatures_cycle s)
  show "humidities (cycle (band ro) st) = [60, 60]"
    by (simp add: humidities_cycle s)
qed

lemma wide_pass:
  assumes "slicesOk st" and "lastDewpoints st = [9.2, 5.4] \<or> lastDewpoints st = [9.2, 4.5]"
  shows "fanShouldBeOn (cycle (wide ro) st) = (if ro > 0 then ro = 1 else True)"
    and "lastDewpoints (cycle (wide ro) st) = [9.2, 4.5]"
proof -
  note s = afterSensors_wide [OF assms(1), of ro]
  show "fanShouldBeOn (cycle (wide ro) st) = (if ro > 0 then ro = 1 else True)"
    using assms(2)
    by (auto simp add: fan_cycle fan_decisionStage s deltaTP_def hysteresis_def safetyFloors_def
        spike_def thresholds)
  show "lastDewpoints (cycle (wide ro) st) = [9.2, 4.5]"
    by (simp add: lastDewpoints_pass [OF assms(1)] s)
qed

lemma narrow_pass:
  assumes "slicesOk st" and "lastDewpoints st = [9.2, 5.4]"
  shows "fanShouldBeOn (cycle (narrow ro) st) = (if ro > 0 then ro = 1 else False)"
    and "lastDewpoints (cycle (narrow ro) st) = [9.2, 6.3]"
proof -
  note s = afterSensors_narrow [OF assms(1), of ro]
  show "fanShouldBeOn (cycle (narrow ro) st) = (if ro > 0 then ro = 1 else False)"
    using assms(2)
    by (simp add: fan_cycle fan_decisionStage s deltaTP_def hysteresis_def safetyFloors_def
        spike_def thresholds)
  show "lastDewpoints (cycle (narrow ro) st) = [9.2, 6.3]"
    by (simp add: lastDewpoints_pass [OF assms(1)] s)
qed

lemma insideFails_pass:
  assumes "slicesOk st"
  shows "fanShouldBeOn (cycle (insideFails ro) st) = (if ro > 0 then ro = 1 else fanShouldBeOn st)"
    and "temperatures (cycle (insideFails ro) st) = [- 1, 13]"
    and "humidities (cycle (insideFails ro) st) = [- 1, 60]"
    and "lastDewpoints (cycle (insideFails ro) st) = lastDewpoints st"
proof -
  note s = afterSensors_insideFails [OF assms, of ro]
  show "fanShouldBeOn (cycle (insideFails ro) st) = (if ro > 0 then ro = 1 else fanShouldBeOn st)"
    by (simp add: fan_cycle fan_decisionStage s)
  show "temperatures (cycle (insideFails ro) st) = [- 1, 13]"
    by (simp add: temperatures_cycle s)
  show "humidities (cycle (insideFails ro) st) = [- 1, 60]"
    by (simp add: humidities_cycle s)
  show "lastDewpoints (cycle (insideFails ro) st) = lastDewpoints st"
    by (simp add: lastDewpoints_pass [OF assms] s)
qed

lemmas passes = band_pass wide_pass narrow_pass insideFails_pass slicesOk_initState pin25_cycle

lemma fan_initState: "\<not> fanShouldBeOn initState"
  by (simp add: initState_def)

lemma exampleState_simps:
  "readingsGood (exampleState a b f)" "fanShouldBeOn (exampleState a b f) = f"
  "temperatures (exampleState a b f) = [22, 5]" "humidities (exampleState a b f) = [55, 80]"
  "dewpoints (exampleState a b f) = [a, b]" "lastDewpoints (exampleState a b f) = [a, b]"
  by (simp_all add: exampleState_def initState_def)

lemma exampleState_spike:
  "\<not> spike (exampleState a b f)"
  "\<not> spike ((exampleState a b f)\<lparr>humidities := hs\<rparr>)"
  "\<not> spike ((exampleState a b f)\<lparr>temperatures := ts\<rparr>)"
  by (simp_all add: spike_def exampleState_simps)


lemma exampleState_decision:
  "fanShouldBeOn (decisionStage (exampleState a b f)) =
     (if a - b < 3 then False else if 4 < a - b then True else f)"
  by (simp add: fan_decisionStage exampleState_spike exampleState_simps deltaTP_def
      hysteresis_def safetyFloors_def thresholds)

section \<open>Hysteresis\<close>



section \<open>Safety floors\<close>

text \<open>
  C2. When the decision block runs (good readings, no spike) and the inside temperature is
  below 10.0, or the outside temperature below -10.0, or the inside humidity below 50.0,
  the desired state at the end of the block is false, whatever the dew points are.
\<close>

theorem safety_floors_force_off:
  assumes "readingsGood st" and "\<not> spike st"
    and "temperatures st ! 0 < TEMP_INSIDE_MIN \<or> temperatures st ! 1 < TEMP_OUTSIDE_MIN
         \<or> humidities st ! 0 < HUM_INSIDE_MIN"
  shows "\<not> fanShouldBeOn (decisionStage st)
         \<and> TEMP_INSIDE_MIN = 10 \<and> TEMP_OUTSIDE_MIN = - 10 \<and> HUM_INSIDE_MIN = 50"
proof -
  have "\<not> safetyFloors st b" for b
    using assms(3) by (auto simp add: safetyFloors_def Let_def)
  then show ?thesis
    using assms(1,2) by (simp add: fan_decisionStage thresholds)
qed

text \<open>
  With a dew point difference of 10.7 and the fan on, each floor alone switches off:
  inside humidity 45, inside temperature 9.9, outside temperature -10.1.
\<close>

theorem safety_floors_force_off_witness:
  "deltaTP (exampleState 12.6 1.9 True) > DIFF_MIN + HYSTERESIS
   \<and> fanShouldBeOn (decisionStage (exampleState 12.6 1.9 True))
   \<and> \<not> fanShouldBeOn (decisionStage ((exampleState 12.6 1.9 True)\<lparr>humidities := [45, 80]\<rparr>))
   \<and> \<not> fanShouldBeOn (decisionStage ((exampleState 12.6 1.9 True)\<lparr>temperatures := [9.9, 5]\<rparr>))
   \<and> \<not> fanShouldBeOn
         (decisionStage ((exampleState 12.6 1.9 True)\<lparr>temperatures := [22, - 10.1]\<rparr>))"
proof -
  have "\<not> fanShouldBeOn (decisionStage ((exampleState 12.6 1.9 True)\<lparr>humidities := [45, 80]\<rparr>))"
    using safety_floors_force_off [of "(exampleState 12.6 1.9 True)\<lparr>humidities := [45, 80]\<rparr>"]
    by (simp add: exampleState_spike exampleState_simps thresholds)
  moreover
  have "\<not> fanShouldBeOn (decisionStage ((exampleState 12.6 1.9 True)\<lparr>temperatures := [9.9, 5]\<rparr>))"
    using safety_floors_force_off [of "(exampleState 12.6 1.9 True)\<lparr>temperatures := [9.9, 5]\<rparr>"]
    by (simp add: exampleState_spike exampleState_simps thresholds)
  moreover
  have "\<not> fanShouldBeOn
         (decisionStage ((exampleState 12.6 1.9 True)\<lparr>temperatures := [22, - 10.1]\<rparr>))"
    using safety_floors_force_off [of "(exampleState 12.6 1.9 True)\<lparr>temperatures := [22, - 10.1]\<rparr>"]
    by (simp add: exampleState_spike exampleState_simps thresholds)
  ultimately show ?thesis
    by (simp add: exampleState_decision deltaTP_def exampleState_simps thresholds)
qed

section \<open>Spike rejection\<close>

text \<open>
  C3. In a pass with good readings in which the dew point of either location differs from
  the stored last dew point by more than 1.0, the decision block is skipped: the state
  after the block is the state before it with only the last dew points stored, so the
  desired state (and the venting text) keep their values; and since the sensor loop does
  not write the desired state, that value is the one of the pass before.
\<close>

theorem spike_skips_decision:
  assumes "readingsGood s"
    and "\<bar>dewpoints s ! 0 - lastDewpoints s ! 0\<bar> > 1 \<or> \<bar>dewpoints s ! 1 - lastDewpoints s ! 1\<bar> > 1"
  shows "decisionStage s = storeLast s
         \<and> fanShouldBeOn (decisionStage s) = fanShouldBeOn s
         \<and> venting (decisionStage s) = venting s
         \<and> (s = afterSensors inp st \<longrightarrow> fanShouldBeOn (decisionStage s) = fanShouldBeOn st)"
proof -
  have "decisionStage s = storeLast s"
    using assms by (simp add: decisionStage_def spike_def)
  then show ?thesis
    by (auto simp add: storeLast_def)
qed

text \<open>
  Last dew point 10.0, new dew point 11.5: the fan stays off although the difference of
  the dew points (9.6) would switch it on. And the first pass after the start, where the
  stored dew points are still 0.
\<close>

theorem spike_skips_decision_witness:
  "\<not> fanShouldBeOn
       (decisionStage ((exampleState 11.5 1.9 False)\<lparr>lastDewpoints := [10.0, 1.9]\<rparr>))
   \<and> fanShouldBeOn (decisionStage (exampleState 11.5 1.9 False))
   \<and> readingsGood (afterSensors (band 0) initState)
   \<and> fanShouldBeOn (decisionStage (afterSensors (band 0) initState)) = fanShouldBeOn initState"
proof -
  have "\<not> fanShouldBeOn
       (decisionStage ((exampleState 11.5 1.9 False)\<lparr>lastDewpoints := [10.0, 1.9]\<rparr>))"
    using spike_skips_decision
      [of "(exampleState 11.5 1.9 False)\<lparr>lastDewpoints := [10.0, 1.9]\<rparr>" "band 0" initState]
    by (simp add: exampleState_simps)
  moreover have s: "afterSensors (band 0) initState =
      initState\<lparr>temperatures := [17, 13], humidities := [60, 60], dewpoints := [9.2, 5.4],
                retried := [0, 0], readingsGood := True\<rparr>"
    by (rule afterSensors_band [OF slicesOk_initState])
  have "lastDewpoints initState = [0, 0]"
    by (simp add: initState_def)
  then have "readingsGood (afterSensors (band 0) initState)
    \<and> fanShouldBeOn (decisionStage (afterSensors (band 0) initState)) = fanShouldBeOn initState"
    using spike_skips_decision [of "afterSensors (band 0) initState" "band 0" initState]
    by (simp add: s)
  ultimately show ?thesis
    by (simp add: exampleState_decision)
qed

section \<open>The stored last dew points\<close>

text \<open>
  C4, as stated: in a pass in which spike rejection fires the last dew points keep their
  values. The first pass after the start has good readings and a spike (the stored dew
  points are 0, the new ones 9.2 and 5.4), and at its end the stored dew points are the
  new ones.
\<close>

theorem last_dewpoints_kept_counterexample:
  "readingsGood (afterSensors (band 0) initState) \<and> spike (afterSensors (band 0) initState)
   \<and> lastDewpoints initState = [0, 0]
   \<and> lastDewpoints (cycle (band 0) initState) = [9.2, 5.4]"
proof -
  have "afterSensors (band 0) initState =
      initState\<lparr>temperatures := [17, 13], humidities := [60, 60], dewpoints := [9.2, 5.4],
                retried := [0, 0], readingsGood := True\<rparr>"
    by (rule afterSensors_band [OF slicesOk_initState])
  moreover have "lastDewpoints initState = [0, 0]"
    by (simp add: initState_def)
  ultimately show ?thesis
    by (simp add: spike_def band_pass slicesOk_initState)
qed

text \<open>
  C4, amended: the last dew points are stored in every pass with good readings, whether
  or not spike rejection fires; they keep their values exactly in the passes whose
  readings are not good.
\<close>

theorem last_dewpoints_stored:
  assumes "slicesOk st"
  shows "(readingsGood (afterSensors inp st) \<longrightarrow>
            lastDewpoints (cycle inp st) = dewpoints (cycle inp st))
         \<and> (\<not> readingsGood (afterSensors inp st) \<longrightarrow>
              lastDewpoints (cycle inp st) = lastDewpoints st)"
  using assms by (simp add: lastDewpoints_pass dewpoints_cycle)

text \<open>
  From the initial state: a pass with good readings (and a spike) stores the new dew
  points, a pass in which the inside read fails leaves the stored ones as they were.
\<close>

theorem last_dewpoints_stored_witness:
  "slicesOk initState
   \<and> readingsGood (afterSensors (band 0) initState)
   \<and> lastDewpoints (cycle (band 0) initState) = dewpoints (cycle (band 0) initState)
   \<and> \<not> readingsGood (afterSensors (insideFails 0) initState)
   \<and> lastDewpoints (cycle (insideFails 0) initState) = lastDewpoints initState"
  using last_dewpoints_stored [of initState "band 0"]
    last_dewpoints_stored [of initState "insideFails 0"]
  by (simp add: slicesOk_initState afterSensors_band afterSensors_insideFails)

section \<open>Remote override\<close>

text \<open>
  C5, as stated: once the override is cleared, the relay command of the next pass is the
  value computed underneath, as if the override had not been set. Three passes on the
  same readings (dew points 9.2 and 5.4, difference 3.8, inside the band), starting from
  the initial state: without an override the fan is off in all of them; with the
  override at 1 in the second pass only, the relay is still on in the third.
\<close>

theorem override_reverts_counterexample:
  "remoteOverride (band 0) = 0 \<and> remoteOverride (band 1) = 1
   \<and> \<not> fanShouldBeOn (run [band 0, band 0] initState)
   \<and> pin25 (run [band 0, band 0, band 0] initState) = High
   \<and> pin25 (run [band 0, band 1] initState) = Low
   \<and> pin25 (run [band 0, band 1, band 0] initState) = Low"
  by (simp add: passes fan_initState)

text \<open>
  C5, amended: an override of 1 gives the relay command on and an override of 2 gives off,
  whatever the decision block computed. The override is written into the desired state
  itself; with the override at 0 the relay command of a pass is the desired state left by
  the decision block of that pass, which starts from the final desired state of the pass
  before, forced or not: the block replaces it when it runs and the dew point difference
  is outside the band or a safety floor holds, and keeps it otherwise.
\<close>

theorem remote_override_priority:
  fixes inp :: cycleInput and st :: loopState
  defines "s \<equiv> afterSensors inp st"
  shows "(remoteOverride inp = 1 \<longrightarrow> fanShouldBeOn (cycle inp st) \<and> pin25 (cycle inp st) = Low)
       \<and> (remoteOverride inp = 2 \<longrightarrow>
            \<not> fanShouldBeOn (cycle inp st) \<and> pin25 (cycle inp st) = High)
       \<and> (remoteOverride inp = 0 \<longrightarrow>
            pin25 (cycle inp st) = (if fanShouldBeOn (decisionStage s) then Low else High)
            \<and> fanShouldBeOn (cycle inp st) = fanShouldBeOn (decisionStage s)
            \<and> fanShouldBeOn (decisionStage s) =
                (if readingsGood s \<and> \<not> spike s
                 then safetyFloors s (hysteresis (deltaTP s) (fanShouldBeOn st))
                 else fanShouldBeOn st))"
  by (simp add: pin25_cycle fan_cycle fan_decisionStage s_def)

text \<open>
  After the passes \<open>band 0, wide 0\<close> the fan is on and the next pass on the same readings
  would keep it on; an override of 2 switches the relay off, an override of 1 switches
  it on from the initial state, and with no override the relay follows the decision block.
\<close>

theorem remote_override_priority_witness:
  "fanShouldBeOn (run [band 0, wide 0] initState)
   \<and> pin25 (cycle (wide 0) (run [band 0, wide 0] initState)) = Low
   \<and> pin25 (cycle (wide 2) (run [band 0, wide 0] initState)) = High
   \<and> pin25 (cycle (band 1) initState) = Low
   \<and> pin25 (cycle (band 0) initState) = High"
proof -
  have "pin25 (cycle (wide 2) (run [band 0, wide 0] initState)) = High"
    using remote_override_priority [of "wide 2" "run [band 0, wide 0] initState"] by simp
  moreover have "pin25 (cycle (band 1) initState) = Low"
    using remote_override_priority [of "band 1" initState] by simp
  moreover have "pin25 (cycle (band 0) initState) =
      (if fanShouldBeOn (decisionStage (afterSensors (band 0) initState)) then Low else High)"
    using remote_override_priority [of "band 0" initState] by simp
  ultimately show ?thesis
    by (simp add: passes fan_initState)
qed

subsection \<open>The call of the dew point formula\<close>

lemma dewpoints_measured [simp]: "dewpoints (measured i rd st) = dewpoints st"
  by (simp add: measured_def storeRead_def correct_def Let_def)

lemma dewpoints_sensorStep:
  "dewpoints (sensorStep i rd st) =
     (case dewPointArgs i rd st of
        None \<Rightarrow> dewpoints st
      | Some (t, r) \<Rightarrow> (dewpoints st)[i := roundFloat32 (calcDewPoint t r) 1])"
  by (simp add: sensorStep_def dewPointArgs_def Let_def)

lemma measured_okRead:
  assumes "i < length (temperatures st)" and "i < length (humidities st)"
  shows "temperatures (measured i (okRead t h) st) ! i =
           roundFloat32 (t + getTempCorrections ! i) 1"
    and "humidities (measured i (okRead t h) st) ! i =
           roundFloat32 (h + getHumCorrections ! i) 1"
  using assms by (simp_all add: measured_def storeRead_def correct_def okRead_def Let_def)

lemma measured_failedRead:
  assumes "i < length (humidities st)"
  shows "humidities (measured i failedRead st) ! i = - 1"
  using assms by (simp add: measured_def storeRead_def failedRead_def Let_def)

lemma lengths_initState:
  "length (temperatures initState) = 2" "length (humidities initState) = 2"
  "length (dewpoints initState) = 2"
  by (simp_all add: initState_def)

section \<open>Arguments of the dew point formula\<close>

text \<open>
  C6, as stated: whenever the loop calls \<^verbatim>\<open>calcDewPoint\<close>, the humidity argument is
  greater than 0. In the first pass the outside sensor reads 13.0 C and 6.0 %; the
  correction of -6.0 makes the humidity 0.0, which passes the test
  \<^verbatim>\<open>humidities[i] > DEF_HUM\<close>, and the second iteration of the sensor loop calls the
  formula with humidity 0.
\<close>

theorem dew_point_arguments_counterexample:
  "dewPointArgs 1 (sensorRead dry 1)
     (sensorStep 0 (sensorRead dry 0) (initState\<lparr>readingsGood := True\<rparr>)) = Some (13, 0)
   \<and> \<not> 0 < snd (the (dewPointArgs 1 (sensorRead dry 1)
                (sensorStep 0 (sensorRead dry 0) (initState\<lparr>readingsGood := True\<rparr>))))"
proof -
  let ?st = "sensorStep 0 (sensorRead dry 0) (initState\<lparr>readingsGood := True\<rparr>)"
  have "slicesOk (initState\<lparr>readingsGood := True\<rparr>)"
    using slicesOk_initState by (simp add: slicesOk_def)
  then have "slicesOk ?st"
    by simp
  then have len: "1 < length (temperatures ?st)" "1 < length (humidities ?st)"
    by (simp_all add: slicesOk_def pins_def)
  have rd: "sensorRead dry 1 = okRead 13.0 6.0"
    by (simp add: dry_def inputOf_def)
  have "temperatures (measured 1 (okRead 13.0 6.0) ?st) ! 1 = 13"
    and "humidities (measured 1 (okRead 13.0 6.0) ?st) ! 1 = 0"
    using len
    by (simp_all add: measured_okRead getTempCorrections_def getHumCorrections_def rounded)
  then have "dewPointArgs 1 (sensorRead dry 1) ?st = Some (13, 0)"
    unfolding rd by (simp add: dewPointArgs_def hasValues_def outOfRange_def thresholds)
  then show ?thesis
    by simp
qed

text \<open>
  C6, amended: whenever the loop calls \<^verbatim>\<open>calcDewPoint\<close>, the temperature argument lies
  between -20 and 40, so that \<open>b + t\<close> is not zero for the constant \<open>b\<close> chosen, and the
  humidity argument is greater than -1 (the value \<^verbatim>\<open>DEF_HUM\<close>). The stored dew point
  of the sensor is the rounded result of that call; in a pass in which the formula is not
  called it is not written.
\<close>

theorem dew_point_arguments:
  "(dewPointArgs i rd st = Some (t, r) \<longrightarrow>
      - 1 < r \<and> - 20 \<le> t \<and> t \<le> 40 \<and> snd (magnusConstants t) + t \<noteq> 0
      \<and> dewpoints (sensorStep i rd st) = (dewpoints st)[i := roundFloat32 (calcDewPoint t r) 1])
   \<and> (dewPointArgs i rd st = None \<longrightarrow> dewpoints (sensorStep i rd st) = dewpoints st)"
proof -
  have "snd (magnusConstants t) + t \<noteq> 0" if "- 20 \<le> t"
    using that by (simp add: magnusConstants_def)
  then show ?thesis
    by (auto simp add: dewpoints_sensorStep)
      (auto simp add: dewPointArgs_def hasValues_def outOfRange_def thresholds Let_def
        split: if_splits)
qed

text \<open>
  Raw readings of 21.0 C and 50 % inside give the call with 17.0 and 60.0; a failed read
  that returns -1 and -1 gives no call.
\<close>

theorem dew_point_arguments_witness:
  "dewPointArgs 0 (okRead 21.0 50.0) initState = Some (17, 60)
   \<and> dewpoints (sensorStep 0 (okRead 21.0 50.0) initState) = [9.2, 0]
   \<and> dewPointArgs 0 failedRead initState = None
   \<and> dewpoints (sensorStep 0 failedRead initState) = dewpoints initState"
proof -
  have "temperatures (measured 0 (okRead 21.0 50.0) initState) ! 0 = 17"
    and "humidities (measured 0 (okRead 21.0 50.0) initState) ! 0 = 60"
    by (simp_all add: measured_okRead lengths_initState getTempCorrections_def
        getHumCorrections_def rounded)
  then have a: "dewPointArgs 0 (okRead 21.0 50.0) initState = Some (17, 60)"
    by (simp add: dewPointArgs_def hasValues_def outOfRange_def thresholds)
  have "humidities (measured 0 failedRead initState) ! 0 = - 1"
    by (simp add: measured_failedRead lengths_initState)
  then have b: "dewPointArgs 0 failedRead initState = None"
    by (simp add: dewPointArgs_def hasValues_def thresholds)
  have d: "dewpoints initState = [0, 0]"
    by (simp add: initState_def)
  show ?thesis
    using dew_point_arguments [of 0 "okRead 21.0 50.0" initState 17 60]
      dew_point_arguments [of 0 failedRead initState 0 0] a b
    by (simp add: d rounded)
qed

section \<open>The dew point formula\<close>






subsection \<open>A failed read\<close>

lemma readingsGood_measured:
  "readingsGood (measured i rd st) = (readingsGood st \<and> err rd = None)"
  by (simp add: measured_def storeRead_def correct_def Let_def)

lemma readingsGood_sensorStep:
  "readingsGood (sensorStep i rd st) \<Longrightarrow> readingsGood st \<and> err rd = None"
  by (simp add: sensorStep_def Let_def readingsGood_measured split: if_splits)

lemma readingsGood_afterSensors:
  assumes "readingsGood (afterSensors inp st)"
  shows "err (sensorRead inp 0) = None \<and> err (sensorRead inp 1) = None"
  using assms readingsGood_sensorStep
  unfolding afterSensors_def sensorLoop_steps by blast

lemma values_sensorStep:
  "temperatures (sensorStep i rd st) = temperatures (measured i rd st)"
  "humidities (sensorStep i rd st) = humidities (measured i rd st)"
  by (simp_all add: sensorStep_def Let_def)

lemma values_measured_err:
  assumes "err rd \<noteq> None"
  shows "temperatures (measured i rd st) = (temperatures st)[i := temperature rd]"
    and "humidities (measured i rd st) = (humidities st)[i := humidity rd]"
  using assms by (simp_all add: measured_def storeRead_def Let_def)

lemma values_measured_other:
  assumes "j \<noteq> i"
  shows "temperatures (measured i rd st) ! j = temperatures st ! j"
    and "humidities (measured i rd st) ! j = humidities st ! j"
  using assms by (simp_all add: measured_def storeRead_def correct_def Let_def)

lemma length_values_measured [simp]:
  "length (temperatures (measured i rd st)) = length (temperatures st)"
  "length (humidities (measured i rd st)) = length (humidities st)"
  by (simp_all add: measured_def storeRead_def correct_def Let_def)

lemma failed_values:
  assumes "slicesOk st" and "i < length pins" and "err (sensorRead inp i) \<noteq> None"
  shows "temperatures (afterSensors inp st) ! i = temperature (sensorRead inp i)"
    and "humidities (afterSensors inp st) ! i = humidity (sensorRead inp i)"
proof -
  have len: "length (temperatures st) = 2" "length (humidities st) = 2"
    using assms(1) by (simp_all add: slicesOk_def pins_def)
  have "i = 0 \<or> i = 1"
    using assms(2) by (auto simp add: pins_def)
  then show "temperatures (afterSensors inp st) ! i = temperature (sensorRead inp i)"
    using assms(3) len
    by (auto simp add: afterSensors_def sensorLoop_steps values_sensorStep values_measured_err
        values_measured_other)
  from \<open>i = 0 \<or> i = 1\<close>
  show "humidities (afterSensors inp st) ! i = humidity (sensorRead inp i)"
    using assms(3) len
    by (auto simp add: afterSensors_def sensorLoop_steps values_sensorStep values_measured_err
        values_measured_other)
qed

section \<open>Failed reads\<close>

text \<open>
  C8, as stated: after a failed read the temperature and humidity held for that sensor
  are kept. After a first pass with good readings the inside values are 17.0 and 60.0; in
  the next pass the read of the inside sensor fails, returning -1 and -1 with its error,
  and the values held for the inside sensor are then -1 and -1.
\<close>

theorem failed_read_keeps_values_counterexample:
  "err (sensorRead (insideFails 0) 0) \<noteq> None
   \<and> temperatures (cycle (band 0) initState) ! 0 = 17
   \<and> humidities (cycle (band 0) initState) ! 0 = 60
   \<and> temperatures (cycle (insideFails 0) (cycle (band 0) initState)) ! 0 = - 1
   \<and> humidities (cycle (insideFails 0) (cycle (band 0) initState)) ! 0 = - 1"
proof -
  have "err (sensorRead (insideFails 0) 0) \<noteq> None"
    by (simp add: insideFails_def inputOf_def failedRead_def)
  then show ?thesis
    by (simp add: passes)
qed

text \<open>
  C8, amended: when the read of a sensor returns an error, the readings of the pass are
  not good, the decision block is skipped and the desired state is the one of the pass
  before unless the remote override is active; the temperature and humidity held for
  that sensor are overwritten with the two values the failed call returned.
\<close>

theorem failed_read:
  assumes "slicesOk st" and "i < length pins" and "err (sensorRead inp i) \<noteq> None"
  shows "\<not> readingsGood (afterSensors inp st)
       \<and> decisionStage (afterSensors inp st) = afterSensors inp st
       \<and> fanShouldBeOn (decisionStage (afterSensors inp st)) = fanShouldBeOn st
       \<and> (remoteOverride inp \<le> 0 \<longrightarrow> fanShouldBeOn (cycle inp st) = fanShouldBeOn st)
       \<and> temperatures (cycle inp st) ! i = temperature (sensorRead inp i)
       \<and> humidities (cycle inp st) ! i = humidity (sensorRead inp i)"
proof -
  have "i = 0 \<or> i = 1"
    using assms(2) by (auto simp add: pins_def)
  then have bad: "\<not> readingsGood (afterSensors inp st)"
    using assms(3) readingsGood_afterSensors [of inp st] by auto
  then have "decisionStage (afterSensors inp st) = afterSensors inp st"
    by (simp add: decisionStage_def)
  then show ?thesis
    using bad failed_values [OF assms]
    by (simp add: fan_cycle temperatures_cycle humidities_cycle)
qed

text \<open>
  The fan is on after the passes \<open>band 0, wide 0\<close>; in the next pass the inside read fails
  and returns -1 and -1: the readings are not good, the fan stays on, and -1 and -1 are
  held for the inside sensor.
\<close>

theorem failed_read_witness:
  "slicesOk (run [band 0, wide 0] initState)
   \<and> err (sensorRead (insideFails 0) 0) \<noteq> None
   \<and> fanShouldBeOn (run [band 0, wide 0] initState)
   \<and> \<not> readingsGood (afterSensors (insideFails 0) (run [band 0, wide 0] initState))
   \<and> fanShouldBeOn (cycle (insideFails 0) (run [band 0, wide 0] initState))
   \<and> temperatures (cycle (insideFails 0) (run [band 0, wide 0] initState)) ! 0 = - 1
   \<and> humidities (cycle (insideFails 0) (run [band 0, wide 0] initState)) ! 0 = - 1"
proof -
  have e: "err (sensorRead (insideFails 0) 0) \<noteq> None"
    "temperature (sensorRead (insideFails 0) 0) = - 1"
    "humidity (sensorRead (insideFails 0) 0) = - 1"
    by (simp_all add: insideFails_def inputOf_def failedRead_def)
  have ok: "slicesOk (run [band 0, wide 0] initState)"
    by (simp add: slicesOk_run slicesOk_initState)
  have on: "fanShouldBeOn (run [band 0, wide 0] initState)"
    by (simp add: passes)
  show ?thesis
    using failed_read [of "run [band 0, wide 0] initState" 0 "insideFails 0"] e ok on
    by (simp add: pins_def)
qed

section \<open>Who changes the desired state\<close>

lemma measured_manual:
  "measured i rd (st\<lparr>fanStatus := f, lastFanStatus := g, fanIsOn := n\<rparr>) =
     (measured i rd st)\<lparr>fanStatus := f, lastFanStatus := g, fanIsOn := n\<rparr>"
  by (simp add: measured_def storeRead_def correct_def Let_def)

lemma tests_manual:
  "hasValues (s\<lparr>fanStatus := f, lastFanStatus := g, fanIsOn := n\<rparr>) i = hasValues s i"
  "outOfRange (s\<lparr>fanStatus := f, lastFanStatus := g, fanIsOn := n\<rparr>) i = outOfRange s i"
  by (simp_all add: hasValues_def outOfRange_def)

lemma sensorStep_manual:
  "sensorStep i rd (st\<lparr>fanStatus := f, lastFanStatus := g, fanIsOn := n\<rparr>) =
     (sensorStep i rd st)\<lparr>fanStatus := f, lastFanStatus := g, fanIsOn := n\<rparr>"
  by (simp add: sensorStep_def measured_manual tests_manual Let_def)

lemma afterSensors_manual:
  "afterSensors (inp\<lparr>pin22Read := p\<rparr>) (st\<lparr>fanStatus := f, lastFanStatus := g, fanIsOn := n\<rparr>) =
     (afterSensors inp st)\<lparr>fanStatus := f, lastFanStatus := g, fanIsOn := n\<rparr>"
proof -
  have a: "(st\<lparr>fanStatus := f, lastFanStatus := g, fanIsOn := n\<rparr>)\<lparr>readingsGood := True\<rparr> =
           (st\<lparr>readingsGood := True\<rparr>)\<lparr>fanStatus := f, lastFanStatus := g, fanIsOn := n\<rparr>"
    by simp
  have b: "sensorRead (inp\<lparr>pin22Read := p\<rparr>) = sensorRead inp"
    by simp
  show ?thesis
    unfolding afterSensors_def a b sensorLoop_steps sensorStep_manual ..
qed

lemma fan_decisionStage_manual:
  "fanShouldBeOn (decisionStage (s\<lparr>fanStatus := f, lastFanStatus := g, fanIsOn := n\<rparr>)) =
     fanShouldBeOn (decisionStage s)"
  by (simp add: fan_decisionStage spike_def deltaTP_def safetyFloors_def)

text \<open>
  C9. In every pass the desired state at the end is: the value forced by an active remote
  override (greater than 0); otherwise the value of the hysteresis and safety block when
  the readings are good and there is no spike; otherwise the value of the pass before. The
  level read on GPIO22 and the manual switch state kept from earlier passes have no
  influence on it; the pass only records that level in \<open>fanStatus\<close>.
\<close>

theorem desired_state_writers:
  fixes inp :: cycleInput and st :: loopState
  defines "s \<equiv> afterSensors inp st"
  shows "fanShouldBeOn (cycle inp st) =
           (if remoteOverride inp > 0 then remoteOverride inp = 1
            else if readingsGood s \<and> \<not> spike s
                 then safetyFloors s (hysteresis (deltaTP s) (fanShouldBeOn st))
                 else fanShouldBeOn st)
       \<and> (\<not> remoteOverride inp > 0 \<and> \<not> (readingsGood s \<and> \<not> spike s) \<longrightarrow>
            fanShouldBeOn (cycle inp st) = fanShouldBeOn st)
       \<and> fanShouldBeOn (cycle (inp\<lparr>pin22Read := p\<rparr>)
                          (st\<lparr>fanStatus := f, lastFanStatus := g, fanIsOn := n\<rparr>))
           = fanShouldBeOn (cycle inp st)
       \<and> fanStatus (cycle inp st) = (\<not> pin22Read inp)"
proof -
  have "fanStatus (cycle inp st) = (\<not> pin22Read inp)"
    by (simp add: cycle_def remember_def manualSwitch_def Let_def)
  then show ?thesis
    by (simp add: fan_cycle fan_decisionStage_manual afterSensors_manual s_def)
      (simp add: fan_decisionStage)
qed

text \<open>
  The fan is on after the passes \<open>band 0, wide 0\<close>. A pass without override in which the
  read of the inside sensor fails leaves it on, also when the switch input reads the
  other level and the recorded switch state differs.
\<close>

theorem desired_state_writers_witness:
  "\<not> remoteOverride (insideFails 0) > 0
   \<and> \<not> readingsGood (afterSensors (insideFails 0) (run [band 0, wide 0] initState))
   \<and> fanShouldBeOn (cycle (insideFails 0) (run [band 0, wide 0] initState))
       = fanShouldBeOn (run [band 0, wide 0] initState)
   \<and> fanShouldBeOn (cycle ((insideFails 0)\<lparr>pin22Read := False\<rparr>)
        ((run [band 0, wide 0] initState)\<lparr>fanStatus := True, lastFanStatus := True,
                                           fanIsOn := ''ON ''\<rparr>))
       = fanShouldBeOn (cycle (insideFails 0) (run [band 0, wide 0] initState))"
proof -
  have ok: "slicesOk (run [band 0, wide 0] initState)"
    by (simp add: slicesOk_run slicesOk_initState)
  have bad: "\<not> readingsGood (afterSensors (insideFails 0) (run [band 0, wide 0] initState))"
    using afterSensors_insideFails [OF ok, of 0] by simp
  show ?thesis
    using desired_state_writers
      [where inp = "insideFails 0" and st = "run [band 0, wide 0] initState"
         and p = False and f = True and g = True and n = "''ON ''"] bad
    by simp
qed

section \<open>The override is an integer\<close>

text \<open>
  C10. The handler of \<^verbatim>\<open>/override\<close> stores the decoded integer as it is. For every
  integer \<open>v\<close> stored this way: \<open>v = 1\<close> gives the relay command on, every \<open>v \<ge> 2\<close> gives
  off, and every \<open>v \<le> 0\<close> leaves the command to the decision block.
\<close>

theorem override_is_any_integer:
  assumes "remoteOverride inp = overrideHandler ''POST'' remote old"
  shows "overrideHandler ''POST'' remote old = Override remote
       \<and> (Override remote = 1 \<longrightarrow> pin25 (cycle inp st) = Low)
       \<and> (Override remote \<ge> 2 \<longrightarrow> pin25 (cycle inp st) = High)
       \<and> (Override remote \<le> 0 \<longrightarrow>
            pin25 (cycle inp st) =
              (if fanShouldBeOn (decisionStage (afterSensors inp st)) then Low else High))"
  using assms by (auto simp add: overrideHandler_def pin25_cycle fan_cycle)

text \<open>
  With the fan on and readings that keep it on: 7 switches the relay off, -3 leaves it
  on, 1 switches it on from the initial state.
\<close>

theorem override_is_any_integer_witness:
  "overrideHandler ''POST'' \<lparr>Override = 7\<rparr> 0 = 7
   \<and> pin25 (cycle (wide 7) (run [band 0, wide 0] initState)) = High
   \<and> overrideHandler ''POST'' \<lparr>Override = - 3\<rparr> 0 = - 3
   \<and> pin25 (cycle (wide (- 3)) (run [band 0, wide 0] initState)) = Low
   \<and> pin25 (cycle (band 1) initState) = Low"
proof -
  have "pin25 (cycle (wide 7) (run [band 0, wide 0] initState)) = High"
    using override_is_any_integer
      [of "wide 7" "\<lparr>Override = 7\<rparr>" 0 "run [band 0, wide 0] initState"]
    by (simp add: overrideHandler_def)
  moreover have "pin25 (cycle (wide (- 3)) (run [band 0, wide 0] initState)) =
      (if fanShouldBeOn (decisionStage (afterSensors (wide (- 3)) (run [band 0, wide 0] initState)))
       then Low else High)"
    using override_is_any_integer
      [of "wide (- 3)" "\<lparr>Override = - 3\<rparr>" 0 "run [band 0, wide 0] initState"]
    by (simp add: overrideHandler_def)
  moreover have "pin25 (cycle (band 1) initState) = Low"
    using override_is_any_integer [of "band 1" "\<lparr>Override = 1\<rparr>" 0 initState]
    by (simp add: overrideHandler_def)
  ultimately show ?thesis
    by (simp add: passes overrideHandler_def)
qed

end
